theory Spec2Isabelle
  imports Complex_Main "HOL-Library.AList"
begin

section \<open>Python values\<close>

text \<open>
  The scorers of \<^verbatim>\<open>stock_screener.py\<close> read a dictionary \<^verbatim>\<open>stock_info\<close> of
  fundamentals. The values met there are \<^verbatim>\<open>None\<close>, booleans, numbers and strings; the
  entry \<^verbatim>\<open>financialData\<close> is itself a dictionary of such values.

  Numbers: Python compares ints and floats by their exact values, so a finite number is
  modelled by the rational it denotes, and the special floats by constructors of their
  own. A finite number stands for a float or for an int within the range of binary64;
  an int beyond that range, which \<^verbatim>\<open>OverflowError\<close> would stop from being formatted
  into an entry, is outside the model, and so are lists and dictionaries as values of
  a field. Strings are sequences of bytes (UTF-8).
\<close>

datatype exn = TypeError | AttributeError | ValueError | ZeroDivisionError | OtherError string

datatype pyfloat = Finite rat | PosInf | NegInf | NaN

datatype scalar = PNone | PBool bool | PNum pyfloat | PStr string

datatype finval = FDict "string \<rightharpoonup> scalar" | FScalar scalar

record stock_info =
  entries :: "string \<rightharpoonup> scalar"
  financialData :: "finval option"

text \<open>Sequencing of computations that may raise: the first exception wins.\<close>

definition bind_exn :: "exn + 'a \<Rightarrow> ('a \<Rightarrow> exn + 'b) \<Rightarrow> exn + 'b" where
  "bind_exn r f = (case r of Inl e \<Rightarrow> Inl e | Inr v \<Rightarrow> f v)"

text \<open>\<^verbatim>\<open>d.get(k, default)\<close> on the top-level dictionary, and on the value bound to
  \<^verbatim>\<open>financials\<close>, which has a \<^verbatim>\<open>get\<close> method only when it is a dictionary.\<close>

definition info_get :: "stock_info \<Rightarrow> string \<Rightarrow> scalar \<Rightarrow> scalar" where
  "info_get stock_info k d = (case entries stock_info k of None \<Rightarrow> d | Some v \<Rightarrow> v)"

fun fin_get :: "finval \<Rightarrow> string \<Rightarrow> scalar \<Rightarrow> exn + scalar" where
  "fin_get (FDict m) k d = Inr (case m k of None \<Rightarrow> d | Some v \<Rightarrow> v)"
| "fin_get (FScalar v) k d = Inl AttributeError"

text \<open>\<^verbatim>\<open>stock_info.get('financialData', {})\<close>\<close>

definition get_financials :: "stock_info \<Rightarrow> finval" where
  "get_financials stock_info =
     (case financialData stock_info of None \<Rightarrow> FDict Map.empty | Some f \<Rightarrow> f)"

abbreviation int0 :: scalar where
  "int0 \<equiv> PNum (Finite 0)"

text \<open>Truth value of an object in a condition.\<close>

fun truthy :: "scalar \<Rightarrow> bool" where
  "truthy PNone = False"
| "truthy (PBool b) = b"
| "truthy (PNum (Finite x)) = (x \<noteq> 0)"
| "truthy (PNum _) = True"
| "truthy (PStr s) = (s \<noteq> [])"

text \<open>The number a value stands for in arithmetic and ordering (\<^verbatim>\<open>True\<close> is 1,
  \<^verbatim>\<open>False\<close> is 0); \<^verbatim>\<open>None\<close> and strings have none.\<close>

fun num_of :: "scalar \<Rightarrow> pyfloat option" where
  "num_of (PBool b) = Some (Finite (if b then 1 else 0))"
| "num_of (PNum x) = Some x"
| "num_of _ = None"

fun f_gt :: "pyfloat \<Rightarrow> rat \<Rightarrow> bool" where
  "f_gt (Finite x) c = (x > c)"
| "f_gt PosInf c = True"
| "f_gt _ c = False"

fun f_lt :: "pyfloat \<Rightarrow> rat \<Rightarrow> bool" where
  "f_lt (Finite x) c = (x < c)"
| "f_lt NegInf c = True"
| "f_lt _ c = False"

fun f_ge :: "pyfloat \<Rightarrow> rat \<Rightarrow> bool" where
  "f_ge (Finite x) c = (x \<ge> c)"
| "f_ge PosInf c = True"
| "f_ge _ c = False"

fun f_le :: "pyfloat \<Rightarrow> rat \<Rightarrow> bool" where
  "f_le (Finite x) c = (x \<le> c)"
| "f_le NegInf c = True"
| "f_le _ c = False"

text \<open>\<^verbatim>\<open>v > c\<close>, \<^verbatim>\<open>v < c\<close>, \<^verbatim>\<open>c <= v\<close>, \<^verbatim>\<open>v <= c\<close> for a numeric constant \<open>c\<close>: ordering
  \<^verbatim>\<open>None\<close> or a string against a number raises \<^verbatim>\<open>TypeError\<close>.\<close>

definition py_cmp :: "(pyfloat \<Rightarrow> rat \<Rightarrow> bool) \<Rightarrow> scalar \<Rightarrow> rat \<Rightarrow> exn + bool" where
  "py_cmp rel v c = (case num_of v of None \<Rightarrow> Inl TypeError | Some x \<Rightarrow> Inr (rel x c))"

abbreviation py_gt :: "scalar \<Rightarrow> rat \<Rightarrow> exn + bool" where
  "py_gt \<equiv> py_cmp f_gt"

abbreviation py_lt :: "scalar \<Rightarrow> rat \<Rightarrow> exn + bool" where
  "py_lt \<equiv> py_cmp f_lt"

abbreviation py_ge :: "scalar \<Rightarrow> rat \<Rightarrow> exn + bool" where
  "py_ge \<equiv> py_cmp f_ge"

abbreviation py_le :: "scalar \<Rightarrow> rat \<Rightarrow> exn + bool" where
  "py_le \<equiv> py_cmp f_le"

text \<open>\<^verbatim>\<open>a and <rest>\<close> used as a condition: the rest is evaluated only when \<open>a\<close> is true.\<close>

definition py_and :: "bool \<Rightarrow> exn + bool \<Rightarrow> exn + bool" where
  "py_and a r = (if a then r else Inr False)"

text \<open>\<^verbatim>\<open>v != 0\<close> never raises; a value that is no number differs from 0.\<close>

fun ne0 :: "scalar \<Rightarrow> bool" where
  "ne0 v = (case num_of v of Some (Finite x) \<Rightarrow> x \<noteq> 0 | _ \<Rightarrow> True)"

text \<open>
  \<^verbatim>\<open>abs(a / b)\<close>. The quotient of two finite numbers is kept exact: the rounding of the
  float division to binary64 is not modelled (it can move a quotient across a threshold
  only inside the last bit above 5 or 10).
\<close>

fun f_div :: "pyfloat \<Rightarrow> pyfloat \<Rightarrow> pyfloat" where
  "f_div NaN _ = NaN"
| "f_div _ NaN = NaN"
| "f_div (Finite a) (Finite b) = Finite (a / b)"
| "f_div (Finite a) _ = Finite 0"
| "f_div PosInf (Finite b) = (if b > 0 then PosInf else NegInf)"
| "f_div NegInf (Finite b) = (if b > 0 then NegInf else PosInf)"
| "f_div _ _ = NaN"

fun f_abs :: "pyfloat \<Rightarrow> pyfloat" where
  "f_abs (Finite a) = Finite \<bar>a\<bar>"
| "f_abs NaN = NaN"
| "f_abs _ = PosInf"

definition py_truediv :: "scalar \<Rightarrow> scalar \<Rightarrow> exn + pyfloat" where
  "py_truediv a b =
     (case (num_of a, num_of b) of
        (Some x, Some y) \<Rightarrow> if y = Finite 0 then Inl ZeroDivisionError else Inr (f_div x y)
      | _ \<Rightarrow> Inl TypeError)"

text \<open>\<^verbatim>\<open>f"{v*100:.1f}"\<close>: \<^verbatim>\<open>None*100\<close> raises \<^verbatim>\<open>TypeError\<close>; a string times 100 is a
  string, which the format code \<^verbatim>\<open>f\<close> rejects with \<^verbatim>\<open>ValueError\<close>. The text itself is not
  rendered: an entry keeps the value that is printed.\<close>

fun fmt_pct :: "scalar \<Rightarrow> exn + scalar" where
  "fmt_pct PNone = Inl TypeError"
| "fmt_pct (PStr s) = Inl ValueError"
| "fmt_pct v = Inr v"

subsection \<open>Strings\<close>

fun starts_with :: "string \<Rightarrow> string \<Rightarrow> bool" where
  "starts_with [] s = True"
| "starts_with (c # cs) [] = False"
| "starts_with (c # cs) (d # ds) = (c = d \<and> starts_with cs ds)"

text \<open>\<^verbatim>\<open>sub in s\<close> for two strings.\<close>

fun str_contains :: "string \<Rightarrow> string \<Rightarrow> bool" where
  "str_contains sub [] = (sub = [])"
| "str_contains sub (c # cs) = (starts_with sub (c # cs) \<or> str_contains sub cs)"

text \<open>\<^verbatim>\<open>any(x in v for x in xs)\<close> with \<open>xs\<close> a non-empty list of strings: the first test
  already raises \<^verbatim>\<open>TypeError\<close> when \<open>v\<close> is not a string.\<close>

fun any_in :: "string list \<Rightarrow> scalar \<Rightarrow> exn + bool" where
  "any_in xs (PStr s) = Inr (list_ex (\<lambda>x. str_contains x s) xs)"
| "any_in xs _ = Inl TypeError"

text \<open>\<^verbatim>\<open>v in xs\<close> with \<open>xs\<close> a list of strings compares by equality and never raises.\<close>

fun in_list :: "scalar \<Rightarrow> string list \<Rightarrow> bool" where
  "in_list (PStr s) xs = (s \<in> set xs)"
| "in_list _ xs = False"

definition lower_char :: "char \<Rightarrow> char" where
  "lower_char c =
     (case map_of (zip ''ABCDEFGHIJKLMNOPQRSTUVWXYZ'' ''abcdefghijklmnopqrstuvwxyz'') c of
        None \<Rightarrow> c
      | Some l \<Rightarrow> l)"

text \<open>
  \<^verbatim>\<open>'buyback' in str(v).lower()\<close>. Lower-casing is modelled on the ASCII letters. The text
  of \<^verbatim>\<open>None\<close>, of a boolean and of a number (digits, sign, point, exponent, \<^verbatim>\<open>inf\<close>,
  \<^verbatim>\<open>nan\<close>) never contains the word.
\<close>

fun mentions_buyback :: "scalar \<Rightarrow> bool" where
  "mentions_buyback (PStr s) = str_contains ''buyback'' (map lower_char s)"
| "mentions_buyback _ = False"

section \<open>Scores and breakdowns\<close>

text \<open>
  A breakdown entry is kept unrendered: its mark (the check, warning or cross that opens
  the text), the literal text, and the values formatted into it. \<^verbatim>\<open>details\<close> is a
  dictionary in insertion order.
\<close>

datatype mark = Pass | Warn | Fail

datatype detail = Detail mark string "scalar list" | ErrorDetail exn

type_synonym details = "(string \<times> detail) list"

text \<open>
  Each numbered block of a scorer reads fields of the snapshot and then either raises,
  or adds its points to \<^verbatim>\<open>score\<close> and writes at most one entry of \<^verbatim>\<open>details\<close>. No
  block reads \<^verbatim>\<open>score\<close> or \<^verbatim>\<open>details\<close>. On the values of the model every exception is
  raised before the block has changed either: a value that has passed an ordering
  comparison is a number, and formatting a number does not raise. The verdict of a
  block is what it does to \<^verbatim>\<open>score\<close> and \<^verbatim>\<open>details\<close>.
\<close>

type_synonym verdict = "exn + rat \<times> (string \<times> detail) option"

definition award :: "rat \<Rightarrow> string \<Rightarrow> detail \<Rightarrow> verdict" where
  "award p k d = Inr (p, Some (k, d))"

definition no_entry :: verdict where
  "no_entry = Inr (0, None)"

text \<open>
  The body of the \<^verbatim>\<open>try\<close>: the blocks run in order on the running \<^verbatim>\<open>score\<close> and
  \<^verbatim>\<open>details\<close>, and stop at the first exception with what was accumulated so far.
\<close>

fun run_rules :: "verdict list \<Rightarrow> rat \<times> details \<Rightarrow> (rat \<times> details) \<times> exn option" where
  "run_rules [] s = (s, None)"
| "run_rules (Inl e # rs) s = (s, Some e)"
| "run_rules (Inr (p, None) # rs) (score, details) = run_rules rs (score + p, details)"
| "run_rules (Inr (p, Some (k, d)) # rs) (score, details) =
     run_rules rs (score + p, AList.update k d details)"

text \<open>\<^verbatim>\<open>except Exception as e: details['Error'] = str(e)\<close>, then the \<^verbatim>\<open>return\<close>.\<close>

fun finish :: "(rat \<times> details) \<times> exn option \<Rightarrow> rat \<times> details" where
  "finish (s, None) = s"
| "finish ((score, details), Some e) = (score, AList.update ''Error'' (ErrorDetail e) details)"

section \<open>Float literals\<close>

text \<open>
  A decimal literal of the source denotes the binary64 number nearest to it; the
  comparisons are made with that number. \<^verbatim>\<open>0.05\<close>, \<^verbatim>\<open>0.10\<close> and \<^verbatim>\<open>0.40\<close> share the
  significand 3602879701896397, \<^verbatim>\<open>0.15\<close> has 5404319552844595. The market-cap
  bounds \<^verbatim>\<open>1e9\<close>, \<^verbatim>\<open>10e9\<close>, \<^verbatim>\<open>50e9\<close>, \<^verbatim>\<open>100e9\<close> are whole numbers, held exactly.
\<close>

definition lit_0_05 :: rat where
  "lit_0_05 = 3602879701896397 / 2 ^ 56"

definition lit_0_10 :: rat where
  "lit_0_10 = 3602879701896397 / 2 ^ 55"

definition lit_0_15 :: rat where
  "lit_0_15 = 5404319552844595 / 2 ^ 55"

definition lit_0_40 :: rat where
  "lit_0_40 = 3602879701896397 / 2 ^ 53"

definition lit_1e9 :: rat where
  "lit_1e9 = 1000000000"

definition lit_10e9 :: rat where
  "lit_10e9 = 10000000000"

definition lit_50e9 :: rat where
  "lit_50e9 = 50000000000"

definition lit_100e9 :: rat where
  "lit_100e9 = 100000000000"

section \<open>score_financial_metrics\<close>

text \<open>1. EPS Growth. The \<^verbatim>\<open>else\<close> branch formats \<^verbatim>\<open>eps_growth*100\<close> as well: its
  conditional \<^verbatim>\<open>if eps_growth else ...\<close> stands inside the f-string, as text.\<close>

definition eps_growth_rule :: "finval \<Rightarrow> verdict" where
  "eps_growth_rule financials =
     bind_exn (fin_get financials ''earningsGrowth'' int0) (\<lambda>eps_growth.
     bind_exn (py_and (truthy eps_growth) (py_gt eps_growth lit_0_05)) (\<lambda>c.
       if c then award 1 ''EPS Growth'' (Detail Pass ''{eps_growth*100:.1f}%'' [eps_growth])
       else bind_exn (fmt_pct eps_growth) (\<lambda>t.
         award 0 ''EPS Growth''
           (Detail Fail ''{eps_growth*100:.1f}% if eps_growth else N/A'' [t]))))"

text \<open>2. Dividend\<close>

definition dividend_rule :: "stock_info \<Rightarrow> verdict" where
  "dividend_rule stock_info =
     (let dividend_rate = info_get stock_info ''dividendRate'' int0;
          five_year_avg_yield = info_get stock_info ''fiveYearAvgDividendYield'' int0
      in bind_exn (py_and (truthy dividend_rate) (py_gt dividend_rate 0)) (\<lambda>c.
         if c then
           bind_exn (py_and (truthy five_year_avg_yield) (py_gt five_year_avg_yield 0)) (\<lambda>c5.
             if c5 then award 1 ''Dividend''
                 (Detail Pass ''${dividend_rate:.2f}, 5yr avg {five_year_avg_yield:.1f}%''
                    [dividend_rate, five_year_avg_yield])
             else award (1/2) ''Dividend'' (Detail Warn ''${dividend_rate:.2f}'' [dividend_rate]))
         else award 0 ''Dividend'' (Detail Fail ''No dividend'' [])))"

text \<open>3. Share Count\<close>

definition share_count_rule :: "stock_info \<Rightarrow> verdict" where
  "share_count_rule stock_info =
     (let shares_outstanding = info_get stock_info ''sharesOutstanding'' int0
      in if truthy shares_outstanding then
           if truthy (info_get stock_info ''sharesShort'' int0)
              \<or> mentions_buyback (info_get stock_info ''longBusinessSummary'' (PStr []))
           then award (1/2) ''Shares'' (Detail Warn ''Unable to verify trend'' [])
           else no_entry
         else no_entry)"

text \<open>4. Book Value\<close>

definition book_value_rule :: "stock_info \<Rightarrow> verdict" where
  "book_value_rule stock_info =
     (let book_value = info_get stock_info ''bookValue'' int0
      in bind_exn (py_and (truthy book_value) (py_gt book_value 0)) (\<lambda>c.
         if c then award (1/2) ''Book Value'' (Detail Warn ''${book_value:.2f}'' [book_value])
         else no_entry))"

text \<open>5. Free Cash Flow\<close>

definition free_cash_flow_rule :: "finval \<Rightarrow> verdict" where
  "free_cash_flow_rule financials =
     bind_exn (fin_get financials ''freeCashflow'' int0) (\<lambda>free_cash_flow.
     bind_exn (py_and (truthy free_cash_flow) (py_gt free_cash_flow 0)) (\<lambda>c.
       if c then award 1 ''FCF'' (Detail Pass ''${free_cash_flow/1e9:.2f}B'' [free_cash_flow])
       else award 0 ''FCF'' (Detail Fail ''Negative or N/A'' [])))"

text \<open>6. Net Margin\<close>

definition net_margin_rule :: "finval \<Rightarrow> verdict" where
  "net_margin_rule financials =
     bind_exn (fin_get financials ''profitMargins'' int0) (\<lambda>profit_margin.
       if truthy profit_margin then
         bind_exn (py_gt profit_margin lit_0_10) (\<lambda>c1.
           if c1 then award 1 ''Net Margin''
               (Detail Pass ''{profit_margin*100:.1f}%'' [profit_margin])
           else bind_exn (py_gt profit_margin lit_0_05) (\<lambda>c2.
             if c2 then award (1/2) ''Net Margin''
                 (Detail Warn ''{profit_margin*100:.1f}%'' [profit_margin])
             else award 0 ''Net Margin''
                 (Detail Fail ''{profit_margin*100:.1f}%'' [profit_margin])))
       else no_entry)"

text \<open>7. ROE\<close>

definition roe_rule :: "finval \<Rightarrow> verdict" where
  "roe_rule financials =
     bind_exn (fin_get financials ''returnOnEquity'' int0) (\<lambda>roe.
       if truthy roe then
         bind_exn (bind_exn (py_ge roe lit_0_15) (\<lambda>a. py_and a (py_le roe lit_0_40))) (\<lambda>c1.
           if c1 then award 1 ''ROE'' (Detail Pass ''{roe*100:.1f}%'' [roe])
           else bind_exn
               (bind_exn (py_ge roe lit_0_10) (\<lambda>a. py_and a (py_lt roe lit_0_15))) (\<lambda>c2.
             if c2 then award (1/2) ''ROE'' (Detail Warn ''{roe*100:.1f}%'' [roe])
             else award 0 ''ROE'' (Detail Fail ''{roe*100:.1f}%'' [roe])))
       else no_entry)"

text \<open>8. Interest Coverage\<close>

definition interest_coverage_rule :: "finval \<Rightarrow> verdict" where
  "interest_coverage_rule financials =
     bind_exn (fin_get financials ''ebit'' int0) (\<lambda>ebit.
     bind_exn (fin_get financials ''interestExpense'' int0) (\<lambda>interest_expense.
       if truthy interest_expense \<and> ne0 interest_expense then
         bind_exn (if truthy ebit
                   then bind_exn (py_truediv ebit interest_expense) (\<lambda>q. Inr (f_abs q))
                   else Inr (Finite 0)) (\<lambda>ic_ratio.
           if f_gt ic_ratio 10 then
             award 1 ''Interest Coverage'' (Detail Pass ''{ic_ratio:.1f}x'' [PNum ic_ratio])
           else if f_gt ic_ratio 5 then
             award (1/2) ''Interest Coverage'' (Detail Warn ''{ic_ratio:.1f}x'' [PNum ic_ratio])
           else
             award 0 ''Interest Coverage'' (Detail Fail ''{ic_ratio:.1f}x'' [PNum ic_ratio]))
       else award 1 ''Interest Coverage'' (Detail Pass ''No debt'' [])))"

text \<open>9. Debt/Equity\<close>

definition debt_equity_rule :: "finval \<Rightarrow> verdict" where
  "debt_equity_rule financials =
     bind_exn (fin_get financials ''debtToEquity'' int0) (\<lambda>debt_to_equity.
       if debt_to_equity \<noteq> PNone then
         bind_exn (py_lt debt_to_equity 50) (\<lambda>c.
           if c then award 1 ''D/E Ratio''
               (Detail Pass ''{debt_to_equity/100:.2f}'' [debt_to_equity])
           else award 0 ''D/E Ratio''
               (Detail Fail ''{debt_to_equity/100:.2f}'' [debt_to_equity]))
       else no_entry)"

text \<open>The nine blocks in the order of the source; \<^verbatim>\<open>financials\<close> is read before the
  first of them, \<^verbatim>\<open>key_stats\<close> is read and never used.\<close>

definition financial_rules :: "stock_info \<Rightarrow> verdict list" where
  "financial_rules stock_info =
     (let financials = get_financials stock_info
      in [eps_growth_rule financials, dividend_rule stock_info, share_count_rule stock_info,
          book_value_rule stock_info, free_cash_flow_rule financials,
          net_margin_rule financials, roe_rule financials,
          interest_coverage_rule financials, debt_equity_rule financials])"

definition score_financial_metrics :: "stock_info \<Rightarrow> 'h \<Rightarrow> rat \<times> details" where
  "score_financial_metrics stock_info historical_data =
     finish (run_rules (financial_rules stock_info) (0, []))"

section \<open>score_competitive_moat\<close>

text \<open>The four reads at the head of the \<^verbatim>\<open>try\<close>; none of them can raise.\<close>

definition get_sector :: "stock_info \<Rightarrow> scalar" where
  "get_sector stock_info = info_get stock_info ''sector'' (PStr [])"

definition get_industry :: "stock_info \<Rightarrow> scalar" where
  "get_industry stock_info = info_get stock_info ''industry'' (PStr [])"

definition get_market_cap :: "stock_info \<Rightarrow> scalar" where
  "get_market_cap stock_info = info_get stock_info ''marketCap'' int0"

definition get_profit_margin :: "stock_info \<Rightarrow> scalar" where
  "get_profit_margin stock_info = info_get stock_info ''profitMargins'' int0"

text \<open>1. Brand\<close>

definition brand_rule :: "stock_info \<Rightarrow> verdict" where
  "brand_rule stock_info =
     bind_exn (py_gt (get_market_cap stock_info) lit_50e9) (\<lambda>c.
       if c then
         if in_list (get_sector stock_info)
              [''Consumer Cyclical'', ''Consumer Defensive'', ''Communication Services'']
         then award 1 ''Brand'' (Detail Pass ''Large consumer brand'' [])
         else award (1/2) ''Brand'' (Detail Warn ''Large company'' [])
       else no_entry)"

text \<open>2. Patents/Licenses\<close>

definition patents_rule :: "stock_info \<Rightarrow> verdict" where
  "patents_rule stock_info =
     (if in_list (get_sector stock_info) [''Healthcare'', ''Technology'']
      then award 1 ''Patents'' (Detail Pass ''{sector} sector'' [get_sector stock_info])
      else no_entry)"

text \<open>3. Cost advantage\<close>

definition cost_advantage_rule :: "stock_info \<Rightarrow> verdict" where
  "cost_advantage_rule stock_info =
     (let profit_margin = get_profit_margin stock_info
      in bind_exn (py_and (truthy profit_margin)
                    (bind_exn (py_gt profit_margin lit_0_15) (\<lambda>a.
                       py_and a (py_gt (get_market_cap stock_info) lit_10e9)))) (\<lambda>c.
           if c then award 1 ''Cost Advantage''
               (Detail Pass ''{profit_margin*100:.1f}% margin + scale'' [profit_margin])
           else no_entry))"

text \<open>4. Switching costs\<close>

definition high_switching_industries :: "string list" where
  "high_switching_industries = [''Software'', ''Banks'', ''Insurance'', ''Utilities'']"

definition switching_cost_rule :: "stock_info \<Rightarrow> verdict" where
  "switching_cost_rule stock_info =
     bind_exn (any_in high_switching_industries (get_industry stock_info)) (\<lambda>c.
       if c then award 1 ''Switching Cost'' (Detail Pass ''{industry}'' [get_industry stock_info])
       else no_entry)"

text \<open>5. Network effects\<close>

definition network_industries :: "string list" where
  "network_industries = [''Internet'', ''Payment'', ''Social Media'', ''Marketplace'']"

definition network_effect_rule :: "stock_info \<Rightarrow> verdict" where
  "network_effect_rule stock_info =
     bind_exn (any_in network_industries (get_industry stock_info)) (\<lambda>c.
       if c then award 1 ''Network Effect'' (Detail Pass ''{industry}'' [get_industry stock_info])
       else no_entry)"

text \<open>6. Niche market: \<^verbatim>\<open>1e9 < market_cap < 10e9\<close>\<close>

definition niche_rule :: "stock_info \<Rightarrow> verdict" where
  "niche_rule stock_info =
     (let market_cap = get_market_cap stock_info
      in bind_exn (bind_exn (py_gt market_cap lit_1e9) (\<lambda>a.
                     py_and a (py_lt market_cap lit_10e9))) (\<lambda>c.
           if c then award (1/2) ''Niche'' (Detail Warn ''Mid-cap potential niche'' [])
           else no_entry))"

text \<open>7. Longevity\<close>

definition longevity_rule :: "stock_info \<Rightarrow> verdict" where
  "longevity_rule stock_info =
     bind_exn (py_gt (info_get stock_info ''fiveYearAvgDividendYield'' int0) 0) (\<lambda>c.
       if c then award 1 ''Longevity'' (Detail Pass ''Established (dividend history)'' [])
       else bind_exn (py_gt (get_market_cap stock_info) lit_100e9) (\<lambda>c2.
         if c2 then award (1/2) ''Longevity'' (Detail Warn ''Large cap (likely established)'' [])
         else no_entry))"

definition moat_rules :: "stock_info \<Rightarrow> verdict list" where
  "moat_rules stock_info =
     [brand_rule stock_info, patents_rule stock_info, cost_advantage_rule stock_info,
      switching_cost_rule stock_info, network_effect_rule stock_info,
      niche_rule stock_info, longevity_rule stock_info]"

definition score_competitive_moat :: "stock_info \<Rightarrow> rat \<times> details" where
  "score_competitive_moat stock_info = finish (run_rules (moat_rules stock_info) (0, []))"

section \<open>calculate_risk_deductions\<close>

text \<open>The dash of \<^verbatim>\<open>Software-Application\<close> in the source is U+2014, three bytes in UTF-8.\<close>

definition em_dash :: string where
  "em_dash = [CHR 0xE2, CHR 0x80, CHR 0x94]"

definition high_tech_industries :: "string list" where
  "high_tech_industries =
     [''Semiconductor'', ''Software'' @ em_dash @ ''Application'', ''Electronics'',
      ''Consumer Electronics'', ''Internet Content'']"

definition gov_industries :: "string list" where
  "gov_industries = [''Aerospace & Defense'', ''Government'']"

text \<open>1. Technology risk\<close>

definition tech_risk_rule :: "stock_info \<Rightarrow> verdict" where
  "tech_risk_rule stock_info =
     bind_exn (any_in high_tech_industries (get_industry stock_info)) (\<lambda>c.
       if c then award (- 1) ''Tech Risk'' (Detail Fail ''-1 ({industry})'' [get_industry stock_info])
       else no_entry)"

text \<open>2. Government risk\<close>

definition gov_risk_rule :: "stock_info \<Rightarrow> verdict" where
  "gov_risk_rule stock_info =
     bind_exn (any_in gov_industries (get_industry stock_info)) (\<lambda>c.
       if c then award (- 1) ''Gov Risk'' (Detail Fail ''-1 ({industry})'' [get_industry stock_info])
       else no_entry)"

text \<open>3. China risk\<close>

definition china_risk_rule :: "stock_info \<Rightarrow> verdict" where
  "china_risk_rule stock_info =
     (if in_list (info_get stock_info ''country'' (PStr [])) [''China'', ''Hong Kong'']
      then award (- 1) ''China Risk'' (Detail Fail ''-1 (Chinese company)'' [])
      else no_entry)"

definition risk_rules :: "stock_info \<Rightarrow> verdict list" where
  "risk_rules stock_info =
     [tech_risk_rule stock_info, gov_risk_rule stock_info, china_risk_rule stock_info]"

definition calculate_risk_deductions :: "stock_info \<Rightarrow> rat \<times> details" where
  "calculate_risk_deductions stock_info = finish (run_rules (risk_rules stock_info) (0, []))"

section \<open>score_stock\<close>

definition min_passing_score :: rat where
  "min_passing_score = 7"

record stock_result =
  ticker :: string
  company_name :: scalar
  sector :: scalar
  industry :: scalar
  market_cap :: scalar
  current_price :: scalar
  financial_score :: rat
  moat_score :: rat
  risk_deduction :: rat
  total_score :: rat
  passing :: bool
  financial_details :: details
  moat_details :: details
  risk_details :: details
  dividend_yield :: scalar
  beta :: scalar

text \<open>The dictionary returned by the \<^verbatim>\<open>except\<close> branch has four keys only.\<close>

record error_result =
  err_ticker :: string
  error :: exn
  err_total_score :: rat
  err_passing :: bool

datatype result = Scored stock_result | Failed error_result

text \<open>
  \<^verbatim>\<open>yf.Ticker(ticker)\<close>, \<^verbatim>\<open>stock.info\<close> and \<^verbatim>\<open>stock.history(period="5y")\<close> belong to the
  data provider: \<open>fetch\<close> stands for the three together and either raises or yields the
  fundamentals and the price history. Once they are there, nothing in the \<^verbatim>\<open>try\<close> of
  \<^verbatim>\<open>score_stock\<close> raises: the scorers catch their own exceptions.
\<close>

definition score_stock :: "(string \<Rightarrow> exn + stock_info \<times> 'h) \<Rightarrow> string \<Rightarrow> result" where
  "score_stock fetch tkr =
     (case fetch tkr of
        Inl e \<Rightarrow>
          Failed \<lparr>err_ticker = tkr, error = e, err_total_score = 0, err_passing = False\<rparr>
      | Inr (info, hist) \<Rightarrow>
          (let (financial_score, financial_details) = score_financial_metrics info hist;
               (moat_score, moat_details) = score_competitive_moat info;
               (risk_deduction, risk_details) = calculate_risk_deductions info;
               total_score = financial_score + moat_score + risk_deduction
           in Scored
                \<lparr>ticker = tkr,
                 company_name = info_get info ''longName'' (PStr tkr),
                 sector = info_get info ''sector'' (PStr ''N/A''),
                 industry = info_get info ''industry'' (PStr ''N/A''),
                 market_cap = info_get info ''marketCap'' int0,
                 current_price = info_get info ''currentPrice'' int0,
                 financial_score = financial_score,
                 moat_score = moat_score,
                 risk_deduction = risk_deduction,
                 total_score = total_score,
                 passing = (total_score \<ge> min_passing_score),
                 financial_details = financial_details,
                 moat_details = moat_details,
                 risk_details = risk_details,
                 dividend_yield = info_get info ''dividendYield'' int0,
                 beta = info_get info ''beta'' int0\<rparr>))"

section \<open>What a block contributes\<close>

text \<open>The points a block adds to the score (none when it raises), whether it raises,
  and the entry it writes.\<close>

fun points :: "verdict \<Rightarrow> rat" where
  "points (Inl e) = 0"
| "points (Inr (p, _)) = p"

fun raises :: "verdict \<Rightarrow> bool" where
  "raises (Inl e) = True"
| "raises (Inr _) = False"






section \<open>Snapshots used below\<close>

text \<open>The scenario of the specification: a mid-cap technology company. \<^verbatim>\<open>0.20\<close> is the
  binary64 number 3602879701896397 / 2^54.\<close>

definition tech_midcap :: stock_info where
  "tech_midcap =
     \<lparr>entries =
        [''sector'' \<mapsto> PStr ''Technology'',
         ''marketCap'' \<mapsto> PNum (Finite 5000000000),
         ''profitMargins'' \<mapsto> PNum (Finite (3602879701896397 / 2 ^ 54)),
         ''industry'' \<mapsto> PStr (''Software'' @ em_dash @ ''Application'')],
      financialData = None\<rparr>"

text \<open>A snapshot on which every criterion of the financial scorer reaches its best
  tier (growth 25%, margin 25%, return on equity 25%, no interest expense).\<close>

definition best_financials :: stock_info where
  "best_financials =
     \<lparr>entries =
        [''dividendRate'' \<mapsto> PNum (Finite 2),
         ''fiveYearAvgDividendYield'' \<mapsto> PNum (Finite (5/2)),
         ''sharesOutstanding'' \<mapsto> PNum (Finite 1000000),
         ''sharesShort'' \<mapsto> PNum (Finite 1000),
         ''bookValue'' \<mapsto> PNum (Finite 10)],
      financialData = Some (FDict
        [''earningsGrowth'' \<mapsto> PNum (Finite (1/4)),
         ''freeCashflow'' \<mapsto> PNum (Finite 5000000000),
         ''profitMargins'' \<mapsto> PNum (Finite (1/4)),
         ''returnOnEquity'' \<mapsto> PNum (Finite (1/4)),
         ''interestExpense'' \<mapsto> PNum (Finite 0),
         ''debtToEquity'' \<mapsto> PNum (Finite 20)])\<rparr>"



text \<open>A Chinese company whose industry is \<^verbatim>\<open>None\<close>, and a bank from Hong Kong.\<close>

definition china_industry_none :: stock_info where
  "china_industry_none =
     \<lparr>entries = [''country'' \<mapsto> PStr ''China'', ''industry'' \<mapsto> PNone],
      financialData = None\<rparr>"

definition hong_kong_plain :: stock_info where
  "hong_kong_plain =
     \<lparr>entries = [''country'' \<mapsto> PStr ''Hong Kong'', ''industry'' \<mapsto> PStr ''Banks''],
      financialData = None\<rparr>"

text \<open>A provider that knows one ticker.\<close>

definition one_ticker :: "string \<Rightarrow> exn + stock_info \<times> unit" where
  "one_ticker tkr =
     (if tkr = ''ACME'' then Inr (tech_midcap, ()) else Inl (OtherError ''unknown symbol''))"


section \<open>Running the blocks\<close>

lemma run_rules_score:
  "fst (fst (run_rules rs (sc, d))) = sc + sum_list (map points (takeWhile (\<lambda>r. \<not> raises r) rs))"
  by (induction rs "(sc, d)" arbitrary: sc d rule: run_rules.induct) auto

lemma finish_score: "fst (finish x) = fst (fst x)"
  by (cases x rule: finish.cases) auto

lemmas rule_simps = bind_exn_def award_def no_entry_def py_and_def py_cmp_def

lemma eps_growth_points: "points (eps_growth_rule f) \<in> {0, 1}"
  by (cases f) (auto simp: eps_growth_rule_def rule_simps split: sum.splits option.splits if_splits)

lemma dividend_points: "points (dividend_rule i) \<in> {0, 1/2, 1}"
  by (auto simp: dividend_rule_def rule_simps Let_def split: sum.splits option.splits if_splits)

lemma share_count_points: "points (share_count_rule i) \<in> {0, 1/2}"
  by (auto simp: share_count_rule_def rule_simps Let_def split: sum.splits option.splits if_splits)

lemma book_value_points: "points (book_value_rule i) \<in> {0, 1/2}"
  by (auto simp: book_value_rule_def rule_simps Let_def split: sum.splits option.splits if_splits)

lemma free_cash_flow_points: "points (free_cash_flow_rule f) \<in> {0, 1}"
  by (cases f) (auto simp: free_cash_flow_rule_def rule_simps split: sum.splits option.splits if_splits)

lemma net_margin_points: "points (net_margin_rule f) \<in> {0, 1/2, 1}"
  by (cases f) (auto simp: net_margin_rule_def rule_simps split: sum.splits option.splits if_splits)

lemma roe_points: "points (roe_rule f) \<in> {0, 1/2, 1}"
  by (cases f) (auto simp: roe_rule_def rule_simps split: sum.splits option.splits if_splits)

lemma interest_coverage_points: "points (interest_coverage_rule f) \<in> {0, 1/2, 1}"
  by (cases f) (auto simp: interest_coverage_rule_def rule_simps py_truediv_def split: sum.splits option.splits if_splits)

lemma debt_equity_points: "points (debt_equity_rule f) \<in> {0, 1}"
  by (cases f) (auto simp: debt_equity_rule_def rule_simps split: sum.splits option.splits if_splits)

lemma prefix_sum_nonneg:
  "\<forall>r\<in>set rs. 0 \<le> points r \<Longrightarrow>
   0 \<le> sum_list (map points (takeWhile P rs)) \<and>
   sum_list (map points (takeWhile P rs)) \<le> sum_list (map points rs)"
proof (induction rs)
  case Nil
  then show ?case by simp
next
  case (Cons r rs)
  then have "0 \<le> sum_list (map points rs)"
    by (simp add: sum_list_nonneg)
  with Cons show ?case by auto
qed

lemma prefix_sum_nonpos:
  "\<forall>r\<in>set rs. points r \<le> 0 \<Longrightarrow>
   sum_list (map points (takeWhile P rs)) \<le> 0 \<and>
   sum_list (map points rs) \<le> sum_list (map points (takeWhile P rs))"
proof (induction rs)
  case Nil
  then show ?case by simp
next
  case (Cons r rs)
  then have "sum_list (map points rs) \<le> 0"
    by (simp add: sum_list_nonpos)
  with Cons show ?case by auto
qed

lemma financial_score_eq:
  "fst (score_financial_metrics s h) =
     sum_list (map points (takeWhile (\<lambda>r. \<not> raises r) (financial_rules s)))"
  by (simp add: score_financial_metrics_def finish_score run_rules_score)

lemma in_set_bounds:
  "x \<in> {0, 1} \<Longrightarrow> 0 \<le> x \<and> x \<le> (1::rat)"
  "x \<in> {0, 1/2, 1} \<Longrightarrow> 0 \<le> x \<and> x \<le> (1::rat)"
  "x \<in> {0, 1/2} \<Longrightarrow> 0 \<le> x \<and> x \<le> (1/2::rat)"
  by auto

lemmas financial_rule_bounds =
  in_set_bounds(1) [OF eps_growth_points] in_set_bounds(2) [OF dividend_points]
  in_set_bounds(3) [OF share_count_points] in_set_bounds(3) [OF book_value_points]
  in_set_bounds(1) [OF free_cash_flow_points] in_set_bounds(2) [OF net_margin_points]
  in_set_bounds(2) [OF roe_points] in_set_bounds(2) [OF interest_coverage_points]
  in_set_bounds(1) [OF debt_equity_points]

lemma financial_points_nonneg: "\<forall>r\<in>set (financial_rules s). 0 \<le> points r"
  by (simp add: financial_rules_def Let_def financial_rule_bounds)

lemma financial_points_total: "sum_list (map points (financial_rules s)) \<le> 8"
proof -
  note b = financial_rule_bounds
  have "points (eps_growth_rule (get_financials s)) + points (dividend_rule s)
        + points (share_count_rule s) + points (book_value_rule s)
        + points (free_cash_flow_rule (get_financials s))
        + points (net_margin_rule (get_financials s)) + points (roe_rule (get_financials s))
        + points (interest_coverage_rule (get_financials s))
        + points (debt_equity_rule (get_financials s)) \<le> 8"
    using b(1) [of "get_financials s"] b(2) [of s] b(3) [of s] b(4) [of s]
      b(5) [of "get_financials s"] b(6) [of "get_financials s"] b(7) [of "get_financials s"]
      b(8) [of "get_financials s"] b(9) [of "get_financials s"]
    by linarith
  then show ?thesis
    by (simp add: financial_rules_def Let_def add.assoc)
qed

lemma financial_score_bounds:
  "0 \<le> fst (score_financial_metrics s h) \<and> fst (score_financial_metrics s h) \<le> 8"
  using prefix_sum_nonneg [OF financial_points_nonneg, of "\<lambda>r. \<not> raises r" s]
    financial_points_total [of s]
  by (simp add: financial_score_eq)

lemma moat_score_eq:
  "fst (score_competitive_moat s) =
     sum_list (map points (takeWhile (\<lambda>r. \<not> raises r) (moat_rules s)))"
  by (simp add: score_competitive_moat_def finish_score run_rules_score)

lemma risk_score_eq:
  "fst (calculate_risk_deductions s) =
     sum_list (map points (takeWhile (\<lambda>r. \<not> raises r) (risk_rules s)))"
  by (simp add: calculate_risk_deductions_def finish_score run_rules_score)

lemma brand_points: "points (brand_rule s) \<in> {0, 1/2, 1}"
  by (auto simp: brand_rule_def rule_simps split: sum.splits option.splits if_splits)

lemma patents_points: "points (patents_rule s) \<in> {0, 1}"
  by (auto simp: patents_rule_def rule_simps)

lemma cost_advantage_points: "points (cost_advantage_rule s) \<in> {0, 1}"
  by (auto simp: cost_advantage_rule_def rule_simps Let_def split: sum.splits option.splits if_splits)

lemma switching_cost_points: "points (switching_cost_rule s) \<in> {0, 1}"
  by (auto simp: switching_cost_rule_def rule_simps split: sum.splits)

lemma network_effect_points: "points (network_effect_rule s) \<in> {0, 1}"
  by (auto simp: network_effect_rule_def rule_simps split: sum.splits)

lemma niche_points: "points (niche_rule s) \<in> {0, 1/2}"
  by (auto simp: niche_rule_def rule_simps Let_def split: sum.splits option.splits if_splits)

lemma longevity_points: "points (longevity_rule s) \<in> {0, 1/2, 1}"
  by (auto simp: longevity_rule_def rule_simps split: sum.splits option.splits if_splits)

lemma f_gt_lt_exclusive: "c \<le> d \<Longrightarrow> f_gt x d \<Longrightarrow> \<not> f_lt x c"
  by (cases x) auto

lemma niche_excludes_brand: "points (niche_rule s) = 0 \<or> points (brand_rule s) = 0"
proof (cases "num_of (get_market_cap s)")
  case None
  then show ?thesis
    by (simp add: niche_rule_def rule_simps Let_def)
next
  case (Some x)
  have "\<not> (f_gt x lit_50e9 \<and> f_lt x lit_10e9)"
    using f_gt_lt_exclusive [of lit_10e9 lit_50e9 x] by (auto simp: lit_10e9_def lit_50e9_def)
  with Some show ?thesis
    by (auto simp: niche_rule_def brand_rule_def rule_simps Let_def)
qed

lemma niche_excludes_cost_advantage:
  "points (niche_rule s) = 0 \<or> points (cost_advantage_rule s) = 0"
proof (cases "num_of (get_market_cap s)")
  case None
  then show ?thesis
    by (simp add: niche_rule_def rule_simps Let_def)
next
  case (Some x)
  have "\<not> (f_gt x lit_10e9 \<and> f_lt x lit_10e9)"
    using f_gt_lt_exclusive [of lit_10e9 lit_10e9 x] by auto
  with Some show ?thesis
    by (auto simp: niche_rule_def cost_advantage_rule_def rule_simps Let_def
        split: option.splits)
qed

lemmas moat_rule_bounds =
  in_set_bounds(2) [OF brand_points] in_set_bounds(1) [OF patents_points]
  in_set_bounds(1) [OF cost_advantage_points] in_set_bounds(1) [OF switching_cost_points]
  in_set_bounds(1) [OF network_effect_points] in_set_bounds(3) [OF niche_points]
  in_set_bounds(2) [OF longevity_points]

lemma moat_points_nonneg: "\<forall>r\<in>set (moat_rules s). 0 \<le> points r"
  by (simp add: moat_rules_def moat_rule_bounds)

lemma moat_points_total: "sum_list (map points (moat_rules s)) \<le> 6"
proof -
  note b = moat_rule_bounds
  have "points (brand_rule s) + points (patents_rule s) + points (cost_advantage_rule s)
        + points (switching_cost_rule s) + points (network_effect_rule s)
        + points (niche_rule s) + points (longevity_rule s) \<le> 6"
    using b(1) [of s] b(2) [of s] b(3) [of s] b(4) [of s] b(5) [of s] b(6) [of s] b(7) [of s]
      niche_excludes_brand [of s] niche_excludes_cost_advantage [of s]
    by linarith
  then show ?thesis
    by (simp add: moat_rules_def add.assoc)
qed

lemma moat_score_bounds:
  "0 \<le> fst (score_competitive_moat s) \<and> fst (score_competitive_moat s) \<le> 6"
  using prefix_sum_nonneg [OF moat_points_nonneg, of "\<lambda>r. \<not> raises r" s]
    moat_points_total [of s]
  by (simp add: moat_score_eq)

lemma tech_risk_points: "points (tech_risk_rule s) \<in> {- 1, 0}"
  by (auto simp: tech_risk_rule_def rule_simps split: sum.splits)

lemma gov_risk_points: "points (gov_risk_rule s) \<in> {- 1, 0}"
  by (auto simp: gov_risk_rule_def rule_simps split: sum.splits)

lemma china_risk_points: "points (china_risk_rule s) \<in> {- 1, 0}"
  by (auto simp: china_risk_rule_def rule_simps)

lemma risk_set_bounds: "x \<in> {- 1, 0} \<Longrightarrow> - 1 \<le> x \<and> x \<le> (0::rat)"
  by auto

lemmas risk_rule_bounds =
  risk_set_bounds [OF tech_risk_points] risk_set_bounds [OF gov_risk_points]
  risk_set_bounds [OF china_risk_points]

lemma risk_points_nonpos: "\<forall>r\<in>set (risk_rules s). points r \<le> 0"
  by (simp add: risk_rules_def risk_rule_bounds)

lemma risk_points_total: "- 3 \<le> sum_list (map points (risk_rules s))"
  using risk_rule_bounds(1) [of s] risk_rule_bounds(2) [of s] risk_rule_bounds(3) [of s]
  by (simp add: risk_rules_def)

lemma risk_score_bounds:
  "- 3 \<le> fst (calculate_risk_deductions s) \<and> fst (calculate_risk_deductions s) \<le> 0"
  using prefix_sum_nonpos [OF risk_points_nonpos, of "\<lambda>r. \<not> raises r" s]
    risk_points_total [of s]
  by (simp add: risk_score_eq)

text \<open>
  Claim C2. For every snapshot the financial score lies between 0 and 9, the moat score
  between 0 and 7, and the risk deduction between -3 and 0. This holds for every
  snapshot of the model, also when a block raises and the scorer returns what it had
  accumulated.
\<close>

theorem sub_scores_in_range:
  "0 \<le> fst (score_financial_metrics s h) \<and> fst (score_financial_metrics s h) \<le> 9
   \<and> 0 \<le> fst (score_competitive_moat s) \<and> fst (score_competitive_moat s) \<le> 7
   \<and> - 3 \<le> fst (calculate_risk_deductions s) \<and> fst (calculate_risk_deductions s) \<le> 0"
  using financial_score_bounds [of s h] moat_score_bounds [of s] risk_score_bounds [of s]
  by simp

text \<open>
  Claim C10. The moat score never exceeds 6: whenever the niche rule adds its half
  point, neither the brand rule nor the cost-advantage rule adds anything, since a
  market cap strictly between 1e9 and 10e9 is above neither 50e9 nor 10e9.
\<close>

theorem moat_score_at_most_six:
  "fst (score_competitive_moat s) \<le> 6
   \<and> (points (niche_rule s) = 0
       \<or> points (brand_rule s) = 0 \<and> points (cost_advantage_rule s) = 0)"
  using moat_score_bounds [of s] niche_excludes_brand [of s] niche_excludes_cost_advantage [of s]
  by blast

section \<open>The composite score\<close>

text \<open>
  Claim C1. When the fetch succeeds, \<^verbatim>\<open>score_stock\<close> returns the full result, whose
  three sub-scores are those of the three scorers, whose total is their sum and whose
  \<^verbatim>\<open>passing\<close> flag says whether the total reaches 7. When the fetch raises, it returns
  the error variant; every error variant has \<^verbatim>\<open>passing\<close> false and total 0.
\<close>

theorem score_stock_threshold_law:
  "(\<forall>info hist. fetch tkr = Inr (info, hist) \<longrightarrow>
      (\<exists>r. score_stock fetch tkr = Scored r
         \<and> financial_score r = fst (score_financial_metrics info hist)
         \<and> moat_score r = fst (score_competitive_moat info)
         \<and> risk_deduction r = fst (calculate_risk_deductions info)
         \<and> total_score r = financial_score r + moat_score r + risk_deduction r
         \<and> passing r = (total_score r \<ge> 7)))
   \<and> (\<forall>e. fetch tkr = Inl e \<longrightarrow> (\<exists>r. score_stock fetch tkr = Failed r))
   \<and> (\<forall>r. score_stock fetch tkr = Failed r \<longrightarrow> \<not> err_passing r \<and> err_total_score r = 0)"
  by (auto simp: score_stock_def min_passing_score_def Let_def split: sum.splits prod.splits)

theorem score_stock_threshold_law_witness:
  "(\<exists>r. score_stock one_ticker ''ACME'' = Scored r
       \<and> total_score r = financial_score r + moat_score r + risk_deduction r
       \<and> passing r = (total_score r \<ge> 7)
       \<and> total_score r = 7/2)
   \<and> (\<exists>r. score_stock one_ticker ''NOPE'' = Failed r \<and> \<not> err_passing r)"
proof -
  have ok: "one_ticker ''ACME'' = Inr (tech_midcap, ())"
    by (simp add: one_ticker_def)
  have fin: "fst (score_financial_metrics tech_midcap ()) = 2"
    by code_simp
  have moat: "fst (score_competitive_moat tech_midcap) = 5/2"
    by code_simp
  have risk: "fst (calculate_risk_deductions tech_midcap) = - 1"
    by code_simp
  from ok score_stock_threshold_law [of one_ticker "''ACME''"]
  obtain r where r: "score_stock one_ticker ''ACME'' = Scored r"
      "financial_score r = fst (score_financial_metrics tech_midcap ())"
      "moat_score r = fst (score_competitive_moat tech_midcap)"
      "risk_deduction r = fst (calculate_risk_deductions tech_midcap)"
      "total_score r = financial_score r + moat_score r + risk_deduction r"
      "passing r = (total_score r \<ge> 7)"
    by blast
  have "total_score r = 7/2"
    using r fin moat risk by simp
  with r have first: "\<exists>r. score_stock one_ticker ''ACME'' = Scored r
       \<and> total_score r = financial_score r + moat_score r + risk_deduction r
       \<and> passing r = (total_score r \<ge> 7) \<and> total_score r = 7/2"
    by blast
  have "one_ticker ''NOPE'' = Inl (OtherError ''unknown symbol'')"
    by (simp add: one_ticker_def)
  with score_stock_threshold_law [of one_ticker "''NOPE''"]
  have "\<exists>r. score_stock one_ticker ''NOPE'' = Failed r \<and> \<not> err_passing r"
    by blast
  with first show ?thesis by blast
qed

text \<open>
  Claim C5, as stated, fails: on the scenario snapshot the moat score is not 1.5. The
  industry text contains \<^verbatim>\<open>Software\<close>, so the switching-cost rule adds a point as well.
\<close>

theorem tech_midcap_moat_counterexample:
  "fst (score_competitive_moat tech_midcap) \<noteq> 3/2"
  by code_simp

text \<open>
  Claim C5, amended. On the scenario snapshot the moat score is 2.5 (patents 1,
  switching cost 1, niche 0.5, in this order in the breakdown) and the risk deduction is
  -1 (technology risk only).
\<close>

theorem tech_midcap_scores:
  "score_competitive_moat tech_midcap =
     (5/2,
      [(''Patents'', Detail Pass ''{sector} sector'' [PStr ''Technology'']),
       (''Switching Cost'',
        Detail Pass ''{industry}'' [PStr (''Software'' @ em_dash @ ''Application'')]),
       (''Niche'', Detail Warn ''Mid-cap potential niche'' [])])
   \<and> calculate_risk_deductions tech_midcap =
     (- 1,
      [(''Tech Risk'',
        Detail Fail ''-1 ({industry})'' [PStr (''Software'' @ em_dash @ ''Application'')])])"
  by code_simp

lemma historical_data_unused: "score_financial_metrics s h = score_financial_metrics s ()"
  by (simp add: score_financial_metrics_def)

text \<open>
  Claim C6, as stated, fails: no snapshot has a financial score of 9. The share-count
  and book-value blocks add half a point at most, so the nine maxima sum to 8.
\<close>

theorem financial_score_nine_counterexample:
  "\<not> (\<exists>s (h::unit). fst (score_financial_metrics s h) = 9)"
proof
  assume "\<exists>s (h::unit). fst (score_financial_metrics s h) = 9"
  then obtain s and h :: unit where "fst (score_financial_metrics s h) = 9"
    by blast
  with financial_score_bounds [of s h] show False
    by simp
qed

text \<open>
  Claim C6, amended. The greatest financial score is 8: no snapshot scores more, and
  the snapshot \<open>best_financials\<close> scores exactly 8.
\<close>

theorem financial_score_maximum:
  "fst (score_financial_metrics s h) \<le> 8
   \<and> fst (score_financial_metrics best_financials h) = 8"
proof -
  have "fst (score_financial_metrics best_financials ()) = 8"
    by code_simp
  then show ?thesis
    using financial_score_bounds [of s h] historical_data_unused [of best_financials h]
    by simp
qed

section \<open>Free cash flow\<close>

lemma raises_points: "raises r \<Longrightarrow> points r = 0"
  by (cases r) auto








section \<open>Risk deductions by country\<close>

text \<open>
  Claim C7, as stated, fails. With country \<^verbatim>\<open>China\<close> and industry \<^verbatim>\<open>None\<close> the
  technology block raises \<^verbatim>\<open>TypeError\<close> (a substring test on \<^verbatim>\<open>None\<close>); the scorer
  stops there and returns the deduction 0, and the China block is never reached.
\<close>

theorem china_risk_counterexample:
  "\<not> fst (calculate_risk_deductions china_industry_none) \<le> - 1"
  by code_simp

text \<open>
  Claim C7, amended. For every snapshot whose country is \<^verbatim>\<open>China\<close> or
  \<^verbatim>\<open>Hong Kong\<close> and whose industry is a string (a missing key reads as the empty
  string), the deduction is at most -1; it is exactly -1 when the industry contains
  none of the technology substrings and none of the government substrings.
\<close>

theorem china_risk_with_string_industry:
  assumes "entries s ''country'' = Some (PStr c)" and "c = ''China'' \<or> c = ''Hong Kong''"
    and "get_industry s = PStr ind"
  shows "fst (calculate_risk_deductions s) \<le> - 1
    \<and> (\<not> list_ex (\<lambda>x. str_contains x ind) high_tech_industries
        \<and> \<not> list_ex (\<lambda>x. str_contains x ind) gov_industries
       \<longrightarrow> fst (calculate_risk_deductions s) = - 1)"
proof -
  have china: "china_risk_rule s = award (- 1) ''China Risk'' (Detail Fail ''-1 (Chinese company)'' [])"
    using assms(1,2) by (auto simp: china_risk_rule_def info_get_def)
  have tech: "tech_risk_rule s =
      (if list_ex (\<lambda>x. str_contains x ind) high_tech_industries
       then award (- 1) ''Tech Risk'' (Detail Fail ''-1 ({industry})'' [PStr ind]) else no_entry)"
    by (simp add: tech_risk_rule_def assms(3) bind_exn_def)
  have gov: "gov_risk_rule s =
      (if list_ex (\<lambda>x. str_contains x ind) gov_industries
       then award (- 1) ''Gov Risk'' (Detail Fail ''-1 ({industry})'' [PStr ind]) else no_entry)"
    by (simp add: gov_risk_rule_def assms(3) bind_exn_def)
  show ?thesis
    by (simp add: risk_score_eq risk_rules_def china tech gov award_def no_entry_def)
qed

theorem china_risk_with_string_industry_witness:
  "fst (calculate_risk_deductions hong_kong_plain) = - 1"
proof -
  have "entries hong_kong_plain ''country'' = Some (PStr ''Hong Kong'')"
    by (simp add: hong_kong_plain_def)
  moreover have "get_industry hong_kong_plain = PStr ''Banks''"
    by (simp add: hong_kong_plain_def get_industry_def info_get_def)
  moreover have "\<not> list_ex (\<lambda>x. str_contains x ''Banks'') high_tech_industries"
    by (simp add: high_tech_industries_def em_dash_def)
  moreover have "\<not> list_ex (\<lambda>x. str_contains x ''Banks'') gov_industries"
    by (simp add: gov_industries_def)
  ultimately show ?thesis
    using china_risk_with_string_industry [of hong_kong_plain "''Hong Kong''" "''Banks''"]
    by blast
qed

section \<open>Exceptions inside the financial scorer\<close>






section \<open>Debt and interest\<close>











end
